theory Spec2Isabelle
  imports Complex_Main
begin

section \<open>The client of the event-driven pipeline (Index.tsx)\<close>

text \<open>
  The page component \<open>Index\<close> keeps its state in React state cells and changes it in
  three callbacks handed to \<open>apiClient.runPipelineEventDriven\<close> (one per progress event,
  one for the terminal result, one for a stream error) and in the handlers of the playback
  buttons. Each callback is modelled as a function from the state before to the state
  after; the state setters of one callback run in program order. A handler that may call
  the API client returns the calls it makes beside the new state.

  Left out of the state: \<open>code\<close>, \<open>selectedNode\<close> and \<open>theme\<close> (never read by these
  functions) and \<open>logs\<close>, which \<open>addLog\<close> only appends to, each line stamped with the
  wall-clock time; no function below reads it.
\<close>

subsection \<open>Values\<close>

text \<open>A value of TypeScript type \<open>any\<close> that arrives as JSON.\<close>

datatype json =
  JNull
| JBool bool
| JNum real
| JStr string
| JArr "json list"
| JObj "(string \<times> json) list"

text \<open>JavaScript truthiness, as tested by \<open>if (v)\<close> and \<open>a || b\<close>.\<close>

fun truthy :: "json \<Rightarrow> bool" where
  "truthy JNull = False"
| "truthy (JBool b) = b"
| "truthy (JNum r) = (r \<noteq> 0)"
| "truthy (JStr s) = (s \<noteq> [])"
| "truthy (JArr xs) = True"
| "truthy (JObj kvs) = True"

text \<open>A property that may be missing: \<open>None\<close> is \<open>undefined\<close>.\<close>

fun truthy_opt :: "json option \<Rightarrow> bool" where
  "truthy_opt None = False"
| "truthy_opt (Some v) = truthy v"

text \<open>\<open>s || d\<close> on an optional string: the empty string is falsy as well.\<close>

fun str_or :: "string option \<Rightarrow> string \<Rightarrow> string" where
  "str_or None d = d"
| "str_or (Some s) d = (if s = [] then d else s)"

text \<open>An object read by key.\<close>

type_synonym jsobject = "string \<rightharpoonup> json"

text \<open>\<open>{...a, ...b}\<close> where \<open>a\<close> may be \<open>undefined\<close>: the keys of \<open>b\<close> win.\<close>

definition spread :: "jsobject option \<Rightarrow> jsobject \<Rightarrow> jsobject" where
  "spread a b = (case a of None \<Rightarrow> Map.empty | Some m \<Rightarrow> m) ++ b"

text \<open>\<open>Array.prototype.indexOf\<close>: the first position, or \<open>-1\<close>.\<close>

fun indexOf :: "'a list \<Rightarrow> 'a \<Rightarrow> int" where
  "indexOf [] x = - 1"
| "indexOf (y # ys) x =
     (if y = x then 0
      else (let i = indexOf ys x in if i < 0 then - 1 else i + 1))"

subsection \<open>Improved files\<close>

record annotation =
  a_line :: int
  a_type :: string
  a_comment :: string

record improved_file =
  f_pipeline_id :: string
  f_file_path :: string
  f_original_code :: string
  f_improved_code :: string
  f_diff :: string
  f_annotations :: "annotation list"
  f_summary :: string

definition annotation_json :: "annotation \<Rightarrow> json" where
  "annotation_json a =
     JObj [(''line'', JNum (of_int (a_line a))), (''type'', JStr (a_type a)),
           (''comment'', JStr (a_comment a))]"

definition file_json :: "improved_file \<Rightarrow> json" where
  "file_json f =
     JObj [(''pipeline_id'', JStr (f_pipeline_id f)), (''file_path'', JStr (f_file_path f)),
           (''original_code'', JStr (f_original_code f)),
           (''improved_code'', JStr (f_improved_code f)), (''diff'', JStr (f_diff f)),
           (''annotations'', JArr (map annotation_json (f_annotations f))),
           (''summary'', JStr (f_summary f))]"

subsection \<open>Events and results\<close>

datatype agent_status = Ev_started | Ev_processing | Ev_success | Ev_failed

text \<open>
  Modelled from the spec: the type \<open>AgentEvent\<close> is declared in the API client, which is
  not among the sources. The wire shape is
  \<open>{agent: string, status, timestamp: string, payload?: object, error?: string}\<close>.
  The callback reads six keys of the payload, here at the types of the state they are
  stored into (\<open>improved_files\<close> an array of improved files, the code and id strings, the
  metrics any value); \<open>p_rest\<close> holds every other key of the object.
\<close>

record event_payload =
  p_improved_files :: "improved_file list option"
  p_improved_code :: "string option"
  p_run_id :: "string option"
  p_original_code :: "string option"
  p_baseline_metrics :: "json option"
  p_improved_metrics :: "json option"
  p_rest :: jsobject

text \<open>The own properties of a payload, as \<open>...event.payload\<close> copies them.\<close>

definition payload_props :: "event_payload \<Rightarrow> jsobject" where
  "payload_props p = (\<lambda>k.
     if k = ''improved_files'' then
       map_option (\<lambda>fs. JArr (map file_json fs)) (p_improved_files p)
     else if k = ''improved_code'' then map_option JStr (p_improved_code p)
     else if k = ''run_id'' then map_option JStr (p_run_id p)
     else if k = ''original_code'' then map_option JStr (p_original_code p)
     else if k = ''baseline_metrics'' then p_baseline_metrics p
     else if k = ''improved_metrics'' then p_improved_metrics p
     else p_rest p k)"

record agent_event =
  agent :: string
  status :: agent_status
  timestamp :: string
  payload :: "event_payload option"
  error :: "string option"

text \<open>
  Modelled from the spec: the type \<open>PipelineResponse\<close> is declared in the API client,
  which is not among the sources. The record has the fields the result callback reads
  (\<open>run_id\<close>, \<open>overview\<close>, \<open>pipeline_json\<close>, \<open>improved_code\<close>, and of
  \<open>ml_improvement\<close> the keys \<open>improved_files\<close>, \<open>improved_code\<close>, \<open>original_code\<close>); the
  overview is an object (baseline against improved metrics), the improved code an array
  of improved files; \<open>r_rest\<close> holds the other stage outputs.
\<close>

record ml_improvement =
  ml_improved_files :: "improved_file list option"
  ml_improved_code :: "string option"
  ml_original_code :: "string option"

record pipeline_response =
  r_run_id :: "string option"
  r_overview :: "jsobject option"
  r_pipeline_json :: "json option"
  r_improved_code :: "improved_file list option"
  r_ml_improvement :: "ml_improvement option"
  r_rest :: jsobject

subsection \<open>The state of the page\<close>

datatype step_status = St_pending | St_processing | St_completed | St_error

record realtime_data =
  rt_overview :: "jsobject option"
  rt_pipeline_json :: "json option"
  rt_logs :: "json list option"
  rt_improved_code :: "improved_file list option"

text \<open>The parser \<open>parsePipelineCode\<close> is elsewhere; its result is only tested for \<open>null\<close>.\<close>

datatype pipeline_data = PipelineData string

record ui_state =
  pipelineData :: "pipeline_data option"
  isRunning :: bool
  isPaused :: bool
  currentStep :: int
  failedAgent :: "string option"
  improvedCode :: string
  pipelineResult :: "pipeline_response option"
  stepStatuses :: "string \<rightharpoonup> step_status"
  realtimeData :: realtime_data
  improvedFiles :: "improved_file list"

definition empty_realtime :: realtime_data where
  "empty_realtime =
     \<lparr>rt_overview = None, rt_pipeline_json = None, rt_logs = None, rt_improved_code = None\<rparr>"

text \<open>The initial values of the \<open>useState\<close> cells.\<close>

definition initial_state :: ui_state where
  "initial_state =
     \<lparr>pipelineData = None, isRunning = False, isPaused = False, currentStep = 0,
      failedAgent = None, improvedCode = [], pipelineResult = None,
      stepStatuses = Map.empty, realtimeData = empty_realtime, improvedFiles = []\<rparr>"

definition stepOrder :: "string list" where
  "stepOrder = [''server'', ''coordinator'', ''ingest_agent'', ''diagnosis_agent'',
                ''ml_improvement_agent'', ''eval_agent'', ''planner_agent'']"

subsection \<open>The progress-event callback of \<open>runEventDrivenPipeline\<close>\<close>

text \<open>The status written into \<open>stepStatuses\<close> for an event.\<close>

definition step_status_of :: "agent_status \<Rightarrow> step_status" where
  "step_status_of st =
     (if st = Ev_success then St_completed
      else if st = Ev_failed then St_error
      else St_processing)"

text \<open>The file built from a legacy payload; the two callbacks differ in where the
  id and the original code come from.\<close>

definition legacyFile :: "string option \<Rightarrow> string option \<Rightarrow> string \<Rightarrow> improved_file" where
  "legacyFile rid orig code =
     \<lparr>f_pipeline_id = str_or rid ''unknown'',
      f_file_path = ''models/legacy_model.py'',
      f_original_code = str_or orig ''# Original code not available'',
      f_improved_code = code,
      f_diff = ''# Diff will be generated'',
      f_annotations =
        [\<lparr>a_line = 15, a_type = ''add'', a_comment = ''Legacy format improvements''\<rparr>],
      f_summary = ''Legacy improvements applied''\<rparr>"

text \<open>The improved files of an \<open>ml_improvement_agent\<close> success.\<close>

definition extract_improved :: "agent_event \<Rightarrow> event_payload \<Rightarrow> ui_state \<Rightarrow> ui_state" where
  "extract_improved e p s =
     (if agent e = ''ml_improvement_agent'' \<and> status e = Ev_success then
        (case p_improved_files p of
           Some files \<Rightarrow>
             (let s1 = s\<lparr>improvedFiles := files,
                          realtimeData := (realtimeData s)\<lparr>rt_improved_code := Some files\<rparr>\<rparr>
              in case files of
                   [] \<Rightarrow> s1
                 | f # fs \<Rightarrow> s1\<lparr>improvedCode := f_improved_code f\<rparr>)
         | None \<Rightarrow>
             (case p_improved_code p of
                None \<Rightarrow> s
              | Some code \<Rightarrow>
                  if code = [] then s
                  else
                    (let lf = legacyFile (p_run_id p) (p_original_code p) code
                     in s\<lparr>improvedFiles := [lf],
                          realtimeData := (realtimeData s)\<lparr>rt_improved_code := Some [lf]\<rparr>,
                          improvedCode := code\<rparr>)))
      else s)"

text \<open>The overview data of a payload that carries metrics.\<close>

definition carries_metrics :: "event_payload \<Rightarrow> bool" where
  "carries_metrics p = (truthy_opt (p_baseline_metrics p) \<or> truthy_opt (p_improved_metrics p))"

definition update_overview :: "event_payload \<Rightarrow> ui_state \<Rightarrow> ui_state" where
  "update_overview p s =
     (if carries_metrics p then
        s\<lparr>realtimeData := (realtimeData s)
             \<lparr>rt_overview := Some (spread (rt_overview (realtimeData s)) (payload_props p))\<rparr>\<rparr>
      else s)"

definition onEvent :: "ui_state \<Rightarrow> agent_event \<Rightarrow> ui_state" where
  "onEvent s e =
     (let s1 = s\<lparr>stepStatuses := (stepStatuses s)(agent e \<mapsto> step_status_of (status e))\<rparr>;
          s2 = (if status e = Ev_success \<or> status e = Ev_failed then
                  (let stepIndex = indexOf stepOrder (agent e)
                   in if stepIndex \<ge> 0 then s1\<lparr>currentStep := stepIndex + 1\<rparr> else s1)
                else s1)
      in if status e = Ev_failed then
           s2\<lparr>failedAgent := Some (agent e), isRunning := False\<rparr>
         else
           (case payload e of
              None \<Rightarrow> s2
            | Some p \<Rightarrow> update_overview p (extract_improved e p s2)))"

text \<open>Events are applied in the order received.\<close>

definition onEvents :: "ui_state \<Rightarrow> agent_event list \<Rightarrow> ui_state" where
  "onEvents s es = foldl onEvent s es"

subsection \<open>The result and error callbacks\<close>

definition result_improved :: "pipeline_response \<Rightarrow> ui_state \<Rightarrow> ui_state" where
  "result_improved r s =
     (case r_improved_code r of
        Some (f # fs) \<Rightarrow> s\<lparr>improvedFiles := f # fs, improvedCode := f_improved_code f\<rparr>
      | _ \<Rightarrow>
        (case r_ml_improvement r of
           None \<Rightarrow> s
         | Some ml \<Rightarrow>
             (case ml_improved_files ml of
                Some files \<Rightarrow>
                  (case files of
                     [] \<Rightarrow> s\<lparr>improvedFiles := files\<rparr>
                   | f # fs \<Rightarrow> s\<lparr>improvedFiles := files, improvedCode := f_improved_code f\<rparr>)
              | None \<Rightarrow>
                  (case ml_improved_code ml of
                     None \<Rightarrow> s
                   | Some code \<Rightarrow>
                       if code = [] then s
                       else s\<lparr>improvedFiles := [legacyFile (r_run_id r) (ml_original_code ml) code],
                               improvedCode := code\<rparr>))))"

text \<open>The three \<open>setRealtimeData\<close> updates of the result callback, in order.\<close>

definition result_realtime :: "pipeline_response \<Rightarrow> realtime_data \<Rightarrow> realtime_data" where
  "result_realtime r d =
     (let d1 = (case r_overview r of
                  None \<Rightarrow> d
                | Some ov \<Rightarrow> d\<lparr>rt_overview := Some ov\<rparr>);
          d2 = (if truthy_opt (r_pipeline_json r) then
                  d1\<lparr>rt_pipeline_json := r_pipeline_json r\<rparr>
                else d1)
      in case r_improved_code r of
           None \<Rightarrow> d2
         | Some fs \<Rightarrow> d2\<lparr>rt_improved_code := Some fs\<rparr>)"

definition onResult :: "ui_state \<Rightarrow> pipeline_response \<Rightarrow> ui_state" where
  "onResult s r =
     result_improved r
       (s\<lparr>pipelineResult := Some r, currentStep := int (length stepOrder),
          isRunning := False, failedAgent := None,
          realtimeData := result_realtime r (realtimeData s)\<rparr>)"

definition onError :: "ui_state \<Rightarrow> ui_state" where
  "onError s = s\<lparr>isRunning := False, failedAgent := Some ''pipeline''\<rparr>"

subsection \<open>Starting a run and the playback handlers\<close>

record experiment_data =
  ex_run_id :: string
  ex_model :: string
  ex_metrics :: "(string \<times> real) list"
  ex_hyperparameters :: "(string \<times> real) list"
  ex_timestamp :: string

text \<open>The only request these handlers send through the API client.\<close>

datatype api_call = RunPipelineEventDriven experiment_data

text \<open>The statements of \<open>runEventDrivenPipeline\<close> up to the call of the API client.\<close>

definition runEventDrivenPipeline :: "experiment_data \<Rightarrow> ui_state \<Rightarrow> ui_state \<times> api_call list" where
  "runEventDrivenPipeline experimentData s =
     (s\<lparr>isRunning := True, currentStep := 0, stepStatuses := Map.empty, improvedCode := [],
        pipelineResult := None, failedAgent := None, realtimeData := empty_realtime,
        improvedFiles := []\<rparr>,
      [RunPipelineEventDriven experimentData])"

text \<open>The sample experiment of \<open>handlePlay\<close>; \<open>now\<close> is the decimal of \<open>Date.now()\<close> and
  \<open>isoTime\<close> the ISO time of the same moment.\<close>

definition sampleExperiment :: "string \<Rightarrow> string \<Rightarrow> experiment_data" where
  "sampleExperiment now isoTime =
     \<lparr>ex_run_id = ''exp_'' @ now, ex_model = ''Sample ML Model'',
      ex_metrics = [(''accuracy'', 0.75), (''loss'', 0.45), (''f1_score'', 0.72),
                    (''precision'', 0.78), (''recall'', 0.68)],
      ex_hyperparameters = [(''learning_rate'', 0.001), (''batch_size'', 32), (''epochs'', 50)],
      ex_timestamp = isoTime\<rparr>"

definition handleParse :: "pipeline_data \<Rightarrow> ui_state \<Rightarrow> ui_state" where
  "handleParse parsed s =
     s\<lparr>pipelineData := Some parsed, currentStep := 0, isRunning := False, isPaused := False\<rparr>"

definition handlePlay :: "string \<Rightarrow> string \<Rightarrow> ui_state \<Rightarrow> ui_state \<times> api_call list" where
  "handlePlay now isoTime s =
     (if pipelineData s = None then (s, [])
      else if currentStep s = 0 then runEventDrivenPipeline (sampleExperiment now isoTime) s
      else (s\<lparr>isRunning := True, isPaused := False\<rparr>, []))"

text \<open>\<open>!failedAgent\<close>: \<open>null\<close> and the empty string are falsy.\<close>

definition no_failed_agent :: "ui_state \<Rightarrow> bool" where
  "no_failed_agent s = (failedAgent s = None \<or> failedAgent s = Some [])"

text \<open>\<open>handlePlay\<close> reads \<open>pipelineData\<close> and \<open>currentStep\<close> of the render the handler
  belongs to, which \<open>setFailedAgent\<close> does not change.\<close>

definition handleRetryAgent :: "string \<Rightarrow> string \<Rightarrow> ui_state \<Rightarrow> ui_state \<times> api_call list" where
  "handleRetryAgent now isoTime s =
     (if no_failed_agent s \<or> pipelineData s = None then (s, [])
      else handlePlay now isoTime (s\<lparr>failedAgent := None\<rparr>))"

definition handleSkipAgent :: "ui_state \<Rightarrow> ui_state \<times> api_call list" where
  "handleSkipAgent s =
     (if no_failed_agent s then (s, [])
      else (s\<lparr>failedAgent := None, isRunning := True, currentStep := currentStep s + 1\<rparr>, []))"

definition handleRestart :: "ui_state \<Rightarrow> ui_state" where
  "handleRestart s =
     s\<lparr>currentStep := 0, isRunning := False, isPaused := False, failedAgent := None,
       realtimeData := empty_realtime\<rparr>"

subsection \<open>Concrete runs\<close>

text \<open>A page on which a pipeline has been parsed and Run has been pressed.\<close>

definition run_start :: ui_state where
  "run_start =
     fst (handlePlay ''1700000000000'' ''2023-11-14T22:13:20.000Z''
            (handleParse (PipelineData ''pipeline'') initial_state))"

definition mk_event :: "string \<Rightarrow> agent_status \<Rightarrow> agent_event" where
  "mk_event a st = \<lparr>agent = a, status = st, timestamp = ''2023-11-14T22:13:21.000Z'',
                     payload = None, error = None\<rparr>"

definition no_payload :: event_payload where
  "no_payload =
     \<lparr>p_improved_files = None, p_improved_code = None, p_run_id = None,
      p_original_code = None, p_baseline_metrics = None, p_improved_metrics = None,
      p_rest = Map.empty\<rparr>"

text \<open>Scenario A of the specification: Ingest and Diagnose succeed, then Improve fails.\<close>

definition scenarioA_before :: "agent_event list" where
  "scenarioA_before =
     [mk_event ''ingest_agent'' Ev_started, mk_event ''ingest_agent'' Ev_success,
      mk_event ''diagnosis_agent'' Ev_started, mk_event ''diagnosis_agent'' Ev_success,
      mk_event ''ml_improvement_agent'' Ev_started]"

definition scenarioA_failed :: agent_event where
  "scenarioA_failed =
     (mk_event ''ml_improvement_agent'' Ev_failed)\<lparr>error := Some ''model unavailable''\<rparr>"

definition haltedA :: ui_state where
  "haltedA = onEvent (onEvents run_start scenarioA_before) scenarioA_failed"

text \<open>An unknown agent name, and a \<open>processing\<close> event for a stage never started.\<close>

definition unknown_event :: agent_event where
  "unknown_event = mk_event ''report_agent'' Ev_success"




text \<open>Payloads of the Improve stage: structured, legacy, and legacy with empty code; an
  Evaluate payload with metrics.\<close>

definition file1 :: improved_file where
  "file1 =
     \<lparr>f_pipeline_id = ''r1'', f_file_path = ''models/cnn_improved.py'',
      f_original_code = ''x = 0'', f_improved_code = ''x = 1'', f_diff = ''-x = 0 +x = 1'',
      f_annotations = [\<lparr>a_line = 1, a_type = ''change'', a_comment = ''set x''\<rparr>],
      f_summary = ''set x''\<rparr>"

definition improve_success :: agent_event where
  "improve_success =
     (mk_event ''ml_improvement_agent'' Ev_success)
       \<lparr>payload := Some (no_payload\<lparr>p_improved_files := Some [file1]\<rparr>)\<rparr>"

definition improve_legacy :: agent_event where
  "improve_legacy =
     (mk_event ''ml_improvement_agent'' Ev_success)
       \<lparr>payload := Some (no_payload\<lparr>p_improved_code := Some ''y = 2''\<rparr>)\<rparr>"

definition improve_legacy_empty :: agent_event where
  "improve_legacy_empty =
     (mk_event ''ml_improvement_agent'' Ev_success)
       \<lparr>payload := Some (no_payload\<lparr>p_improved_code := Some []\<rparr>)\<rparr>"



definition eval_failed :: agent_event where
  "eval_failed = (mk_event ''eval_agent'' Ev_failed)\<lparr>error := Some ''timeout''\<rparr>"

text \<open>Terminal results.\<close>

definition bare_result :: pipeline_response where
  "bare_result =
     \<lparr>r_run_id = Some ''r1'', r_overview = None, r_pipeline_json = None,
      r_improved_code = None, r_ml_improvement = None, r_rest = Map.empty\<rparr>"

definition result_no_files :: pipeline_response where
  "result_no_files = bare_result\<lparr>r_improved_code := Some []\<rparr>"

definition result_legacy :: pipeline_response where
  "result_legacy =
     bare_result\<lparr>r_ml_improvement :=
       Some \<lparr>ml_improved_files = None, ml_improved_code = Some ''y = 2'',
             ml_original_code = None\<rparr>\<rparr>"

definition result_legacy_empty :: pipeline_response where
  "result_legacy_empty =
     bare_result\<lparr>r_ml_improvement :=
       Some \<lparr>ml_improved_files = None, ml_improved_code = Some [],
             ml_original_code = None\<rparr>\<rparr>"

definition result_full :: pipeline_response where
  "result_full =
     bare_result\<lparr>r_overview := Some [''accuracy'' \<mapsto> JNum 0.8],
                 r_pipeline_json := Some (JObj [(''nodes'', JArr [])]),
                 r_improved_code := Some [file1]\<rparr>"

text \<open>A run in which Improve succeeded and Evaluate failed; then the user parses again.\<close>

definition haltedEval :: ui_state where
  "haltedEval = onEvents run_start [improve_success, eval_failed]"

definition reparsed :: ui_state where
  "reparsed = handleParse (PipelineData ''pipeline'') haltedEval"

section \<open>Properties\<close>

subsection \<open>Auxiliary facts\<close>

lemma indexOf_notin: "x \<notin> set xs \<Longrightarrow> indexOf xs x = - 1"
  by (induction xs) (auto simp: Let_def)

lemma indexOf_in: "x \<in> set xs \<Longrightarrow> 0 \<le> indexOf xs x"
  by (induction xs) (auto simp: Let_def)


lemma extract_improved_frame:
  "currentStep (extract_improved e p s) = currentStep s"
  "failedAgent (extract_improved e p s) = failedAgent s"
  "stepStatuses (extract_improved e p s) = stepStatuses s"
  "isRunning (extract_improved e p s) = isRunning s"
  "isPaused (extract_improved e p s) = isPaused s"
  "pipelineData (extract_improved e p s) = pipelineData s"
  "pipelineResult (extract_improved e p s) = pipelineResult s"
  "rt_overview (realtimeData (extract_improved e p s)) = rt_overview (realtimeData s)"
  "rt_pipeline_json (realtimeData (extract_improved e p s)) = rt_pipeline_json (realtimeData s)"
  "rt_logs (realtimeData (extract_improved e p s)) = rt_logs (realtimeData s)"
  by (simp_all add: extract_improved_def Let_def split: option.splits list.splits)

lemma update_overview_frame:
  "currentStep (update_overview p s) = currentStep s"
  "failedAgent (update_overview p s) = failedAgent s"
  "stepStatuses (update_overview p s) = stepStatuses s"
  "isRunning (update_overview p s) = isRunning s"
  "isPaused (update_overview p s) = isPaused s"
  "pipelineData (update_overview p s) = pipelineData s"
  "pipelineResult (update_overview p s) = pipelineResult s"
  "improvedFiles (update_overview p s) = improvedFiles s"
  "improvedCode (update_overview p s) = improvedCode s"
  "rt_pipeline_json (realtimeData (update_overview p s)) = rt_pipeline_json (realtimeData s)"
  "rt_logs (realtimeData (update_overview p s)) = rt_logs (realtimeData s)"
  "rt_improved_code (realtimeData (update_overview p s)) = rt_improved_code (realtimeData s)"
  by (simp_all add: update_overview_def)






text \<open>The callback on a \<open>success\<close> event of a stage of the step order.\<close>

lemma onEvent_success:
  "status e = Ev_success \<Longrightarrow> agent e \<in> set stepOrder \<Longrightarrow>
   onEvent s e =
     (let s2 = s\<lparr>stepStatuses := (stepStatuses s)(agent e \<mapsto> St_completed),
                  currentStep := indexOf stepOrder (agent e) + 1\<rparr>
      in case payload e of
           None \<Rightarrow> s2
         | Some p \<Rightarrow> update_overview p (extract_improved e p s2))"
  by (simp add: onEvent_def Let_def step_status_of_def indexOf_in)

text \<open>The step cursor after any progress event.\<close>

lemma onEvent_cursor:
  "currentStep (onEvent s e) =
     (if (status e = Ev_success \<or> status e = Ev_failed) \<and> 0 \<le> indexOf stepOrder (agent e)
      then indexOf stepOrder (agent e) + 1
      else currentStep s)"
  by (simp add: onEvent_def Let_def extract_improved_frame update_overview_frame
        split: option.splits)

lemma result_realtime_idem: "result_realtime r (result_realtime r d) = result_realtime r d"
  by (simp add: result_realtime_def Let_def split: option.splits)

lemma result_improved_frame:
  "currentStep (result_improved r s) = currentStep s"
  "failedAgent (result_improved r s) = failedAgent s"
  "stepStatuses (result_improved r s) = stepStatuses s"
  "isRunning (result_improved r s) = isRunning s"
  "isPaused (result_improved r s) = isPaused s"
  "pipelineData (result_improved r s) = pipelineData s"
  "pipelineResult (result_improved r s) = pipelineResult s"
  "realtimeData (result_improved r s) = realtimeData s"
  by (simp_all add: result_improved_def split: option.splits list.splits)

lemma result_improved_commute:
  "result_improved r (s\<lparr>pipelineResult := a, currentStep := b, isRunning := c,
                         failedAgent := d, realtimeData := e\<rparr>) =
   (result_improved r s)\<lparr>pipelineResult := a, currentStep := b, isRunning := c,
                         failedAgent := d, realtimeData := e\<rparr>"
  by (simp add: result_improved_def split: option.splits list.splits)

lemma result_improved_idem: "result_improved r (result_improved r s) = result_improved r s"
  by (simp add: result_improved_def split: option.splits list.splits)

lemma length_stepOrder: "int (length stepOrder) = 7"
  by (simp add: stepOrder_def)

text \<open>Unfolding sets for the concrete runs.\<close>

lemmas run_defs = run_start_def handlePlay_def handleParse_def initial_state_def
  runEventDrivenPipeline_def empty_realtime_def

lemmas event_defs = onEvents_def onEvent_def mk_event_def stepOrder_def step_status_of_def
  extract_improved_def update_overview_def carries_metrics_def no_payload_def Let_def

lemma run_start_eq:
  "run_start =
     \<lparr>pipelineData = Some (PipelineData ''pipeline''), isRunning = True, isPaused = False,
      currentStep = 0, failedAgent = None, improvedCode = [], pipelineResult = None,
      stepStatuses = Map.empty, realtimeData = empty_realtime, improvedFiles = []\<rparr>"
  by (simp add: run_defs)

subsection \<open>The step cursor\<close>

text \<open>
  C1. The claim: the step cursor advances only on a \<open>success\<close> event, and a \<open>failed\<close>
  event leaves it where it was. Evaluated on Scenario A (Ingest and Diagnose succeed,
  Improve fails): before the \<open>failed\<close> event of \<open>ml_improvement_agent\<close> the cursor is 4,
  after it the cursor is 5, the index of that stage plus one; the failed stage is
  recorded.
\<close>

theorem scenarioA_failed_event_moves_cursor:
  "currentStep (onEvents run_start scenarioA_before) = 4 \<and>
   currentStep (onEvent (onEvents run_start scenarioA_before) scenarioA_failed) = 5 \<and>
   failedAgent (onEvent (onEvents run_start scenarioA_before) scenarioA_failed) =
     Some ''ml_improvement_agent''"
  by (simp add: run_start_eq scenarioA_before_def scenarioA_failed_def event_defs)

text \<open>
  C10. An event whose agent name is not in the step order leaves the step cursor
  unchanged, whatever its status, while the status map gets an entry under that name.
\<close>

theorem unknown_agent_keeps_cursor:
  assumes "agent e \<notin> set stepOrder"
  shows "currentStep (onEvent s e) = currentStep s \<and>
         stepStatuses (onEvent s e) (agent e) = Some (step_status_of (status e))"
  using assms
  by (simp add: onEvent_def Let_def indexOf_notin extract_improved_frame update_overview_frame
        split: option.splits)

theorem unknown_agent_keeps_cursor_witness:
  "agent unknown_event \<notin> set stepOrder \<and>
   currentStep (onEvent haltedA unknown_event) = 5 \<and>
   stepStatuses haltedA ''report_agent'' = None \<and>
   stepStatuses (onEvent haltedA unknown_event) ''report_agent'' = Some St_completed"
proof -
  have h: "agent unknown_event \<notin> set stepOrder"
    by (simp add: unknown_event_def mk_event_def stepOrder_def)
  have c: "currentStep haltedA = 5" "stepStatuses haltedA ''report_agent'' = None"
    by (simp_all add: haltedA_def run_start_eq scenarioA_before_def scenarioA_failed_def
          event_defs)
  show ?thesis
    using h c unknown_agent_keeps_cursor [OF h, of haltedA]
    by (simp add: unknown_event_def mk_event_def step_status_of_def)
qed

subsection \<open>Failed events\<close>



subsection \<open>The terminal result\<close>

text \<open>
  C7. Applying the terminal result a second time changes nothing: the whole state after
  two applications (so also the overview, the pipeline JSON, the improved files, the
  improved code and the step cursor) is the state after one.
\<close>

theorem onResult_twice:
  "onResult (onResult s r) r = onResult s r"
  by (simp add: onResult_def result_improved_commute result_improved_idem
        result_improved_frame result_realtime_idem)

text \<open>
  C6, as the claim states it: for every field present in the final payload the final value
  replaces what was folded from the events. It fails for the improved files: after an
  Improve success that delivered \<open>file1\<close>, a final result whose \<open>improved_code\<close> is the
  empty array leaves the improved files and the improved code as folded, while the
  realtime \<open>improved_code\<close> becomes empty.
\<close>

theorem empty_final_files_keep_folded:
  "r_improved_code result_no_files = Some [] \<and>
   improvedFiles (onResult (onEvent run_start improve_success) result_no_files) = [file1] \<and>
   improvedCode (onResult (onEvent run_start improve_success) result_no_files) = ''x = 1'' \<and>
   rt_improved_code (realtimeData (onResult (onEvent run_start improve_success) result_no_files))
     = Some []"
  by (simp add: run_start_eq improve_success_def result_no_files_def bare_result_def file1_def
        onResult_def result_improved_def result_realtime_def empty_realtime_def event_defs)

text \<open>
  C6, amended. The terminal result marks the run finished (not running, no failed agent,
  cursor at 7) and is stored whole as \<open>pipelineResult\<close>. Each realtime field is
  overwritten by the final value when the final payload has it (for the pipeline JSON:
  has it truthy) and kept otherwise. The improved files and the improved code are taken
  from a non-empty final \<open>improved_code\<close> array; with that array absent or empty and no
  \<open>ml_improvement\<close> in the result they stay as folded.
\<close>

theorem onResult_effect:
  "isRunning (onResult s r) = False \<and>
   failedAgent (onResult s r) = None \<and>
   currentStep (onResult s r) = 7 \<and>
   pipelineResult (onResult s r) = Some r \<and>
   (\<forall>ov. r_overview r = Some ov \<longrightarrow> rt_overview (realtimeData (onResult s r)) = Some ov) \<and>
   (r_overview r = None \<longrightarrow>
      rt_overview (realtimeData (onResult s r)) = rt_overview (realtimeData s)) \<and>
   (truthy_opt (r_pipeline_json r) \<longrightarrow>
      rt_pipeline_json (realtimeData (onResult s r)) = r_pipeline_json r) \<and>
   (\<not> truthy_opt (r_pipeline_json r) \<longrightarrow>
      rt_pipeline_json (realtimeData (onResult s r)) = rt_pipeline_json (realtimeData s)) \<and>
   (\<forall>fs. r_improved_code r = Some fs \<longrightarrow>
      rt_improved_code (realtimeData (onResult s r)) = Some fs) \<and>
   (r_improved_code r = None \<longrightarrow>
      rt_improved_code (realtimeData (onResult s r)) = rt_improved_code (realtimeData s)) \<and>
   (\<forall>f fs. r_improved_code r = Some (f # fs) \<longrightarrow>
      improvedFiles (onResult s r) = f # fs \<and>
      improvedCode (onResult s r) = f_improved_code f) \<and>
   ((r_improved_code r = None \<or> r_improved_code r = Some []) \<and> r_ml_improvement r = None \<longrightarrow>
      improvedFiles (onResult s r) = improvedFiles s \<and>
      improvedCode (onResult s r) = improvedCode s)"
proof -
  have flags: "isRunning (onResult s r) = False" "failedAgent (onResult s r) = None"
    "currentStep (onResult s r) = 7" "pipelineResult (onResult s r) = Some r"
    by (simp_all add: onResult_def result_improved_frame length_stepOrder)
  have rt: "realtimeData (onResult s r) = result_realtime r (realtimeData s)"
    by (simp add: onResult_def result_improved_frame)
  have ov: "\<forall>ov. r_overview r = Some ov \<longrightarrow> rt_overview (realtimeData (onResult s r)) = Some ov"
    "r_overview r = None \<longrightarrow>
       rt_overview (realtimeData (onResult s r)) = rt_overview (realtimeData s)"
    by (simp_all add: rt result_realtime_def Let_def split: option.splits)
  have pj: "truthy_opt (r_pipeline_json r) \<longrightarrow>
       rt_pipeline_json (realtimeData (onResult s r)) = r_pipeline_json r"
    "\<not> truthy_opt (r_pipeline_json r) \<longrightarrow>
       rt_pipeline_json (realtimeData (onResult s r)) = rt_pipeline_json (realtimeData s)"
    by (simp_all add: rt result_realtime_def Let_def split: option.splits)
  have ic: "\<forall>fs. r_improved_code r = Some fs \<longrightarrow>
       rt_improved_code (realtimeData (onResult s r)) = Some fs"
    "r_improved_code r = None \<longrightarrow>
       rt_improved_code (realtimeData (onResult s r)) = rt_improved_code (realtimeData s)"
    by (simp_all add: rt result_realtime_def Let_def split: option.splits)
  have files: "\<forall>f fs. r_improved_code r = Some (f # fs) \<longrightarrow>
       improvedFiles (onResult s r) = f # fs \<and>
       improvedCode (onResult s r) = f_improved_code f"
    by (simp add: onResult_def result_improved_def)
  have kept: "(r_improved_code r = None \<or> r_improved_code r = Some []) \<and>
       r_ml_improvement r = None \<longrightarrow>
       improvedFiles (onResult s r) = improvedFiles s \<and>
       improvedCode (onResult s r) = improvedCode s"
    by (auto simp: onResult_def result_improved_def)
  from flags ov pj ic files kept show ?thesis by blast
qed

theorem onResult_effect_witness:
  "r_overview result_full = Some [''accuracy'' \<mapsto> JNum 0.8] \<and>
   r_improved_code result_full = Some [file1] \<and>
   truthy_opt (r_pipeline_json result_full) \<and>
   currentStep (onResult haltedA result_full) = 7 \<and>
   failedAgent (onResult haltedA result_full) = None \<and>
   rt_overview (realtimeData (onResult haltedA result_full)) = Some [''accuracy'' \<mapsto> JNum 0.8] \<and>
   rt_pipeline_json (realtimeData (onResult haltedA result_full)) =
     Some (JObj [(''nodes'', JArr [])]) \<and>
   rt_improved_code (realtimeData (onResult haltedA result_full)) = Some [file1] \<and>
   improvedFiles (onResult haltedA result_full) = [file1] \<and>
   improvedCode (onResult haltedA result_full) = f_improved_code file1"
proof -
  have h: "r_overview result_full = Some [''accuracy'' \<mapsto> JNum 0.8]"
    "r_improved_code result_full = Some [file1]"
    "r_pipeline_json result_full = Some (JObj [(''nodes'', JArr [])])"
    by (simp_all add: result_full_def bare_result_def)
  have t: "truthy_opt (r_pipeline_json result_full)"
    by (simp add: h)
  show ?thesis
    using h t onResult_effect [of haltedA result_full]
    by simp
qed

subsection \<open>Legacy payloads of the Improve stage\<close>

text \<open>
  C5, as the claim states it: every legacy payload \<open>{improved_code: string}\<close> of an
  Improve success becomes a one-element array of improved files. It fails for the empty
  string, which the guards \<open>if (payload.improved_code)\<close> and
  \<open>if (result.ml_improvement?.improved_code)\<close> treat as absent. On a fresh run the
  improved files stay empty, for the progress event and for the terminal result. After an
  Improve success that delivered \<open>file1\<close>, they stay \<open>[file1]\<close>, whose code is not the
  empty string of the payload.
\<close>

theorem empty_legacy_code_not_normalised:
  "payload improve_legacy_empty = Some (no_payload\<lparr>p_improved_code := Some []\<rparr>) \<and>
   improvedFiles (onEvent run_start improve_legacy_empty) = [] \<and>
   rt_improved_code (realtimeData (onEvent run_start improve_legacy_empty)) = None \<and>
   improvedFiles (onResult run_start result_legacy_empty) = [] \<and>
   improvedFiles (onEvent (onEvent run_start improve_success) improve_legacy_empty) = [file1] \<and>
   improvedCode (onEvent (onEvent run_start improve_success) improve_legacy_empty) = ''x = 1'' \<and>
   improvedFiles (onResult (onEvent run_start improve_success) result_legacy_empty) = [file1] \<and>
   improvedCode (onResult (onEvent run_start improve_success) result_legacy_empty) = ''x = 1''"
  by (simp add: run_start_eq improve_legacy_empty_def improve_success_def file1_def
        result_legacy_empty_def bare_result_def onResult_def result_improved_def
        result_realtime_def empty_realtime_def event_defs)

text \<open>
  C5, amended. A legacy payload whose \<open>improved_code\<close> is a non-empty string is
  normalised to the one-element array holding \<open>legacyFile\<close> with that code. On an
  \<open>ml_improvement_agent\<close> success event without \<open>improved_files\<close> the array is stored as
  the improved files and as the realtime improved code, and the code as the improved
  code. On a terminal result whose top-level \<open>improved_code\<close> is absent or empty and whose
  \<open>ml_improvement\<close> has no \<open>improved_files\<close>, the array is stored as the improved files
  and the code as the improved code. A legacy payload whose \<open>improved_code\<close> is the empty
  string is treated as absent: on the same event the improved files, the improved code
  and the realtime improved code are left as they were, and on the same terminal result
  the improved files and the improved code are left as they were.
\<close>

theorem legacy_code_normalised:
  "(agent e = ''ml_improvement_agent'' \<and> status e = Ev_success \<and> payload e = Some p \<and>
    p_improved_files p = None \<and> p_improved_code p = Some code \<and> code \<noteq> [] \<longrightarrow>
      improvedFiles (onEvent s e) = [legacyFile (p_run_id p) (p_original_code p) code] \<and>
      rt_improved_code (realtimeData (onEvent s e)) =
        Some [legacyFile (p_run_id p) (p_original_code p) code] \<and>
      improvedCode (onEvent s e) = code) \<and>
   ((r_improved_code r = None \<or> r_improved_code r = Some []) \<and>
    r_ml_improvement r = Some ml \<and> ml_improved_files ml = None \<and>
    ml_improved_code ml = Some code \<and> code \<noteq> [] \<longrightarrow>
      improvedFiles (onResult s r) = [legacyFile (r_run_id r) (ml_original_code ml) code] \<and>
      improvedCode (onResult s r) = code) \<and>
   f_improved_code (legacyFile rid orig code) = code \<and>
   (agent e = ''ml_improvement_agent'' \<and> status e = Ev_success \<and> payload e = Some p \<and>
    p_improved_files p = None \<and> p_improved_code p = Some [] \<longrightarrow>
      improvedFiles (onEvent s e) = improvedFiles s \<and>
      rt_improved_code (realtimeData (onEvent s e)) = rt_improved_code (realtimeData s) \<and>
      improvedCode (onEvent s e) = improvedCode s) \<and>
   ((r_improved_code r = None \<or> r_improved_code r = Some []) \<and>
    r_ml_improvement r = Some ml \<and> ml_improved_files ml = None \<and>
    ml_improved_code ml = Some [] \<longrightarrow>
      improvedFiles (onResult s r) = improvedFiles s \<and>
      improvedCode (onResult s r) = improvedCode s)"
proof -
  have ev: "improvedFiles (onEvent s e) = [legacyFile (p_run_id p) (p_original_code p) code] \<and>
            rt_improved_code (realtimeData (onEvent s e)) =
              Some [legacyFile (p_run_id p) (p_original_code p) code] \<and>
            improvedCode (onEvent s e) = code"
    if "agent e = ''ml_improvement_agent''" "status e = Ev_success" "payload e = Some p"
      "p_improved_files p = None" "p_improved_code p = Some code" "code \<noteq> []"
  proof -
    have mem: "agent e \<in> set stepOrder"
      using that(1) by (simp add: stepOrder_def)
    show ?thesis
      using that
      by (simp add: onEvent_success [OF that(2) mem] Let_def update_overview_frame
            extract_improved_def)
  qed
  have res: "improvedFiles (onResult s r) = [legacyFile (r_run_id r) (ml_original_code ml) code] \<and>
             improvedCode (onResult s r) = code"
    if "r_improved_code r = None \<or> r_improved_code r = Some []" "r_ml_improvement r = Some ml"
      "ml_improved_files ml = None" "ml_improved_code ml = Some code" "code \<noteq> []"
    using that by (auto simp: onResult_def result_improved_def)
  have lf: "f_improved_code (legacyFile rid orig code) = code"
    by (simp add: legacyFile_def)
  have ev0: "improvedFiles (onEvent s e) = improvedFiles s \<and>
             rt_improved_code (realtimeData (onEvent s e)) = rt_improved_code (realtimeData s) \<and>
             improvedCode (onEvent s e) = improvedCode s"
    if "agent e = ''ml_improvement_agent''" "status e = Ev_success" "payload e = Some p"
      "p_improved_files p = None" "p_improved_code p = Some []"
  proof -
    have mem: "agent e \<in> set stepOrder"
      using that(1) by (simp add: stepOrder_def)
    show ?thesis
      using that
      by (simp add: onEvent_success [OF that(2) mem] Let_def update_overview_frame
            extract_improved_def)
  qed
  have res0: "improvedFiles (onResult s r) = improvedFiles s \<and>
              improvedCode (onResult s r) = improvedCode s"
    if "r_improved_code r = None \<or> r_improved_code r = Some []" "r_ml_improvement r = Some ml"
      "ml_improved_files ml = None" "ml_improved_code ml = Some []"
    using that by (auto simp: onResult_def result_improved_def)
  from ev res lf ev0 res0 show ?thesis by blast
qed

theorem legacy_code_normalised_witness:
  "''y = 2'' \<noteq> [] \<and>
   improvedFiles (onEvent run_start improve_legacy) = [legacyFile None None ''y = 2''] \<and>
   rt_improved_code (realtimeData (onEvent run_start improve_legacy)) =
     Some [legacyFile None None ''y = 2''] \<and>
   improvedCode (onEvent run_start improve_legacy) = ''y = 2'' \<and>
   improvedFiles (onResult run_start result_legacy) = [legacyFile (Some ''r1'') None ''y = 2''] \<and>
   improvedCode (onResult run_start result_legacy) = ''y = 2'' \<and>
   f_pipeline_id (legacyFile None None ''y = 2'') = ''unknown'' \<and>
   f_improved_code (legacyFile None None ''y = 2'') = ''y = 2'' \<and>
   improvedFiles (onEvent (onEvent run_start improve_success) improve_legacy_empty) =
     improvedFiles (onEvent run_start improve_success) \<and>
   improvedCode (onEvent (onEvent run_start improve_success) improve_legacy_empty) =
     improvedCode (onEvent run_start improve_success) \<and>
   improvedFiles (onResult (onEvent run_start improve_success) result_legacy_empty) =
     improvedFiles (onEvent run_start improve_success) \<and>
   improvedFiles (onEvent run_start improve_success) = [file1]"
proof -
  have h: "''y = 2'' \<noteq> []" by simp
  have e: "agent improve_legacy = ''ml_improvement_agent''" "status improve_legacy = Ev_success"
    "payload improve_legacy = Some (no_payload\<lparr>p_improved_code := Some ''y = 2''\<rparr>)"
    by (simp_all add: improve_legacy_def mk_event_def)
  have p: "p_improved_files (no_payload\<lparr>p_improved_code := Some ''y = 2''\<rparr>) = None"
    "p_improved_code (no_payload\<lparr>p_improved_code := Some ''y = 2''\<rparr>) = Some ''y = 2''"
    "p_run_id (no_payload\<lparr>p_improved_code := Some ''y = 2''\<rparr>) = None"
    "p_original_code (no_payload\<lparr>p_improved_code := Some ''y = 2''\<rparr>) = None"
    by (simp_all add: no_payload_def)
  have r: "r_improved_code result_legacy = None" "r_run_id result_legacy = Some ''r1''"
    "r_ml_improvement result_legacy =
       Some \<lparr>ml_improved_files = None, ml_improved_code = Some ''y = 2'',
             ml_original_code = None\<rparr>"
    by (simp_all add: result_legacy_def bare_result_def)
  have u: "f_pipeline_id (legacyFile None None ''y = 2'') = ''unknown''"
    by (simp add: legacyFile_def)
  have e0: "agent improve_legacy_empty = ''ml_improvement_agent''"
    "status improve_legacy_empty = Ev_success"
    "payload improve_legacy_empty = Some (no_payload\<lparr>p_improved_code := Some []\<rparr>)"
    by (simp_all add: improve_legacy_empty_def mk_event_def)
  have p0: "p_improved_files (no_payload\<lparr>p_improved_code := Some []\<rparr>) = None"
    "p_improved_code (no_payload\<lparr>p_improved_code := Some []\<rparr>) = Some []"
    by (simp_all add: no_payload_def)
  have r0: "r_improved_code result_legacy_empty = None"
    "r_ml_improvement result_legacy_empty =
       Some \<lparr>ml_improved_files = None, ml_improved_code = Some [], ml_original_code = None\<rparr>"
    by (simp_all add: result_legacy_empty_def bare_result_def)
  have f: "improvedFiles (onEvent run_start improve_success) = [file1]"
    by (simp add: run_start_eq improve_success_def event_defs)
  note full = legacy_code_normalised [where e = improve_legacy
        and p = "no_payload\<lparr>p_improved_code := Some ''y = 2''\<rparr>" and r = result_legacy
        and ml = "\<lparr>ml_improved_files = None, ml_improved_code = Some ''y = 2'',
                   ml_original_code = None\<rparr>"
        and s = run_start and rid = None and orig = None and code = "''y = 2''"]
  note empty = legacy_code_normalised [where e = improve_legacy_empty
        and p = "no_payload\<lparr>p_improved_code := Some []\<rparr>" and r = result_legacy_empty
        and ml = "\<lparr>ml_improved_files = None, ml_improved_code = Some [],
                   ml_original_code = None\<rparr>"
        and s = "onEvent run_start improve_success" and rid = None and orig = None
        and code = "''y = 2''"]
  show ?thesis
    using h e p r u e0 p0 r0 f full empty
    by simp
qed

subsection \<open>Progress events out of order\<close>




subsection \<open>Success events\<close>




subsection \<open>Retry and skip\<close>

text \<open>Retry on a page with a parsed pipeline and a failed agent recorded.\<close>

lemma handleRetryAgent_halted:
  assumes "failedAgent s = Some a" and "a \<noteq> []" and "pipelineData s = Some d"
  shows "handleRetryAgent now isoTime s =
           (if currentStep s = 0 then
              runEventDrivenPipeline (sampleExperiment now isoTime) (s\<lparr>failedAgent := None\<rparr>)
            else (s\<lparr>failedAgent := None, isRunning := True, isPaused := False\<rparr>, []))"
  using assms by (simp add: handleRetryAgent_def handlePlay_def no_failed_agent_def)

text \<open>
  C3, as the claim states it: retry and skip invoke the Coordinator's retry and skip
  operations and clear the failure status. On the run of Scenario A, halted on
  \<open>ml_improvement_agent\<close>, neither handler sends any request, and the stage keeps the
  status \<open>error\<close> after either of them.
\<close>

theorem retry_skip_send_nothing:
  "failedAgent haltedA = Some ''ml_improvement_agent'' \<and>
   snd (handleRetryAgent ''1700000002000'' ''2023-11-14T22:13:22.000Z'' haltedA) = [] \<and>
   snd (handleSkipAgent haltedA) = [] \<and>
   stepStatuses (fst (handleRetryAgent ''1700000002000'' ''2023-11-14T22:13:22.000Z'' haltedA))
     ''ml_improvement_agent'' = Some St_error \<and>
   stepStatuses (fst (handleSkipAgent haltedA)) ''ml_improvement_agent'' = Some St_error"
  by (simp add: haltedA_def run_start_eq scenarioA_before_def scenarioA_failed_def event_defs
        handleRetryAgent_def handleSkipAgent_def handlePlay_def no_failed_agent_def)

text \<open>
  C3, amended. On a page with a parsed pipeline and a failed agent recorded, retry and
  skip both clear the failed agent and mark the run as running; neither sends a retry or
  skip request for the failed stage. Skip sends nothing, moves the step cursor one step
  on and leaves the status map as it was. The only request retry can send is a new run of
  the whole pipeline on the sample experiment; when it sends nothing the status map is
  left as it was, so the failed stage keeps its status.
\<close>

theorem retry_skip_effect:
  assumes "failedAgent s = Some a" and "a \<noteq> []" and "pipelineData s = Some d"
  shows "failedAgent (fst (handleSkipAgent s)) = None \<and>
         isRunning (fst (handleSkipAgent s)) \<and>
         snd (handleSkipAgent s) = [] \<and>
         currentStep (fst (handleSkipAgent s)) = currentStep s + 1 \<and>
         stepStatuses (fst (handleSkipAgent s)) = stepStatuses s \<and>
         failedAgent (fst (handleRetryAgent now isoTime s)) = None \<and>
         isRunning (fst (handleRetryAgent now isoTime s)) \<and>
         (snd (handleRetryAgent now isoTime s) = [] \<or>
          snd (handleRetryAgent now isoTime s) =
            [RunPipelineEventDriven (sampleExperiment now isoTime)]) \<and>
         (snd (handleRetryAgent now isoTime s) = [] \<longrightarrow>
            stepStatuses (fst (handleRetryAgent now isoTime s)) = stepStatuses s)"
proof -
  have skip: "handleSkipAgent s =
      (s\<lparr>failedAgent := None, isRunning := True, currentStep := currentStep s + 1\<rparr>, [])"
    using assms by (simp add: handleSkipAgent_def no_failed_agent_def)
  show ?thesis
    by (simp add: skip handleRetryAgent_halted [OF assms] runEventDrivenPipeline_def)
qed

theorem retry_skip_effect_witness:
  "failedAgent haltedA = Some ''ml_improvement_agent'' \<and>
   ''ml_improvement_agent'' \<noteq> [] \<and>
   pipelineData haltedA = Some (PipelineData ''pipeline'') \<and>
   failedAgent (fst (handleSkipAgent haltedA)) = None \<and>
   currentStep (fst (handleSkipAgent haltedA)) = 6 \<and>
   snd (handleSkipAgent haltedA) = [] \<and>
   failedAgent (fst (handleRetryAgent ''1700000002000'' ''2023-11-14T22:13:22.000Z'' haltedA))
     = None \<and>
   snd (handleRetryAgent ''1700000002000'' ''2023-11-14T22:13:22.000Z'' haltedA) = [] \<and>
   stepStatuses (fst (handleRetryAgent ''1700000002000'' ''2023-11-14T22:13:22.000Z'' haltedA))
     = stepStatuses haltedA"
proof -
  have h: "failedAgent haltedA = Some ''ml_improvement_agent''"
    "''ml_improvement_agent'' \<noteq> []"
    "pipelineData haltedA = Some (PipelineData ''pipeline'')"
    by (simp_all add: haltedA_def run_start_eq scenarioA_before_def scenarioA_failed_def
          event_defs)
  have c: "currentStep haltedA = 5"
    by (simp add: haltedA_def run_start_eq scenarioA_before_def scenarioA_failed_def event_defs)
  have n: "snd (handleRetryAgent ''1700000002000'' ''2023-11-14T22:13:22.000Z'' haltedA) = []"
    by (simp add: handleRetryAgent_halted [OF h] c)
  show ?thesis
    using h c n
      retry_skip_effect [OF h, of "''1700000002000''" "''2023-11-14T22:13:22.000Z''"]
    by simp
qed

text \<open>
  C4, as the claim states it: retry runs the failed stage again, alone, and keeps the step
  cursor and the composite gathered so far. In the run where Improve succeeded with
  \<open>file1\<close> and Evaluate failed, retry sends no request, so the stage is not run again.
  After the pipeline is parsed again the cursor is 0 and the failed agent still recorded;
  retry then starts the whole pipeline on the sample experiment and empties the improved
  files.
\<close>

theorem retry_runs_no_single_stage:
  "failedAgent haltedEval = Some ''eval_agent'' \<and>
   snd (handleRetryAgent ''1700000003000'' ''2023-11-14T22:13:23.000Z'' haltedEval) = [] \<and>
   failedAgent reparsed = Some ''eval_agent'' \<and>
   currentStep reparsed = 0 \<and>
   improvedFiles reparsed = [file1] \<and>
   snd (handleRetryAgent ''1700000003000'' ''2023-11-14T22:13:23.000Z'' reparsed) =
     [RunPipelineEventDriven
        (sampleExperiment ''1700000003000'' ''2023-11-14T22:13:23.000Z'')] \<and>
   improvedFiles (fst (handleRetryAgent ''1700000003000'' ''2023-11-14T22:13:23.000Z'' reparsed))
     = []"
  by (simp add: reparsed_def haltedEval_def run_start_eq improve_success_def eval_failed_def
        event_defs handleRetryAgent_def handlePlay_def handleParse_def no_failed_agent_def
        runEventDrivenPipeline_def)

text \<open>
  C4, amended. Retry on a page with a parsed pipeline and a failed agent recorded runs no
  single stage: the only request it can send is a new run of the whole pipeline on the
  sample experiment. When it sends nothing, the step cursor, the realtime data, the
  improved files, the improved code and the stored result are left as they were. When it
  sends that request, the cursor is back at 0 and the status map, the realtime data, the
  improved files and the improved code are emptied.
\<close>

theorem retry_frame:
  assumes "failedAgent s = Some a" and "a \<noteq> []" and "pipelineData s = Some d"
  shows "(snd (handleRetryAgent now isoTime s) = [] \<or>
          snd (handleRetryAgent now isoTime s) =
            [RunPipelineEventDriven (sampleExperiment now isoTime)]) \<and>
         (snd (handleRetryAgent now isoTime s) = [] \<longrightarrow>
            currentStep (fst (handleRetryAgent now isoTime s)) = currentStep s \<and>
            realtimeData (fst (handleRetryAgent now isoTime s)) = realtimeData s \<and>
            improvedFiles (fst (handleRetryAgent now isoTime s)) = improvedFiles s \<and>
            improvedCode (fst (handleRetryAgent now isoTime s)) = improvedCode s \<and>
            pipelineResult (fst (handleRetryAgent now isoTime s)) = pipelineResult s) \<and>
         (snd (handleRetryAgent now isoTime s) =
            [RunPipelineEventDriven (sampleExperiment now isoTime)] \<longrightarrow>
            currentStep (fst (handleRetryAgent now isoTime s)) = 0 \<and>
            stepStatuses (fst (handleRetryAgent now isoTime s)) = Map.empty \<and>
            realtimeData (fst (handleRetryAgent now isoTime s)) = empty_realtime \<and>
            improvedFiles (fst (handleRetryAgent now isoTime s)) = [] \<and>
            improvedCode (fst (handleRetryAgent now isoTime s)) = [])"
  by (simp add: handleRetryAgent_halted [OF assms] runEventDrivenPipeline_def)

theorem retry_frame_witness:
  "failedAgent haltedEval = Some ''eval_agent'' \<and>
   ''eval_agent'' \<noteq> [] \<and>
   pipelineData haltedEval = Some (PipelineData ''pipeline'') \<and>
   improvedFiles haltedEval = [file1] \<and>
   snd (handleRetryAgent ''1700000003000'' ''2023-11-14T22:13:23.000Z'' haltedEval) = [] \<and>
   currentStep (fst (handleRetryAgent ''1700000003000'' ''2023-11-14T22:13:23.000Z'' haltedEval))
     = 6 \<and>
   improvedFiles (fst (handleRetryAgent ''1700000003000'' ''2023-11-14T22:13:23.000Z'' haltedEval))
     = [file1] \<and>
   failedAgent reparsed = Some ''eval_agent'' \<and>
   pipelineData reparsed = Some (PipelineData ''pipeline'') \<and>
   snd (handleRetryAgent ''1700000003000'' ''2023-11-14T22:13:23.000Z'' reparsed) =
     [RunPipelineEventDriven
        (sampleExperiment ''1700000003000'' ''2023-11-14T22:13:23.000Z'')] \<and>
   improvedFiles (fst (handleRetryAgent ''1700000003000'' ''2023-11-14T22:13:23.000Z'' reparsed))
     = []"
proof -
  have h: "failedAgent haltedEval = Some ''eval_agent''"
    "''eval_agent'' \<noteq> []"
    "pipelineData haltedEval = Some (PipelineData ''pipeline'')"
    by (simp_all add: haltedEval_def run_start_eq improve_success_def eval_failed_def event_defs)
  have c: "currentStep haltedEval = 6" "improvedFiles haltedEval = [file1]"
    by (simp_all add: haltedEval_def run_start_eq improve_success_def eval_failed_def event_defs)
  have n: "snd (handleRetryAgent ''1700000003000'' ''2023-11-14T22:13:23.000Z'' haltedEval) = []"
    by (simp add: handleRetryAgent_halted [OF h] c)
  have h': "failedAgent reparsed = Some ''eval_agent''"
    "''eval_agent'' \<noteq> []"
    "pipelineData reparsed = Some (PipelineData ''pipeline'')"
    using h by (simp_all add: reparsed_def handleParse_def)
  have c': "currentStep reparsed = 0"
    by (simp add: reparsed_def handleParse_def)
  have r: "snd (handleRetryAgent ''1700000003000'' ''2023-11-14T22:13:23.000Z'' reparsed) =
     [RunPipelineEventDriven
        (sampleExperiment ''1700000003000'' ''2023-11-14T22:13:23.000Z'')]"
    by (simp add: handleRetryAgent_halted [OF h'] c' runEventDrivenPipeline_def)
  show ?thesis
    using h h' c n r
      retry_frame [OF h, of "''1700000003000''" "''2023-11-14T22:13:23.000Z''"]
      retry_frame [OF h', of "''1700000003000''" "''2023-11-14T22:13:23.000Z''"]
    by simp
qed

end
